theory Spec2Isabelle
  imports Main
begin

section \<open>Strings\<close>

text \<open>
  A JavaScript string is a sequence of code units. The model takes \<open>string\<close>, one
  \<open>char\<close> for each code unit, which covers the code units below 256. Offsets and
  columns are numbers of the program and stay integers, since \<open>indexOf\<close> answers -1.
\<close>

abbreviation NL :: char where "NL \<equiv> CHR 0x0A"
abbreviation dq :: char where "dq \<equiv> CHR 0x22"
abbreviation sq :: char where "sq \<equiv> CHR 0x27"
abbreviation bq :: char where "bq \<equiv> CHR 0x60"
abbreviation backslash :: char where "backslash \<equiv> CHR 0x5C"

text \<open>The class \<open>\s\<close> of a pattern, which is also what \<open>trim\<close> removes.\<close>

definition isSpace :: "char \<Rightarrow> bool" where
  "isSpace c = (c = CHR 0x09 \<or> c = CHR 0x0A \<or> c = CHR 0x0B \<or> c = CHR 0x0C \<or> c = CHR 0x0D
     \<or> c = CHR 0x20 \<or> c = CHR 0xA0)"

definition trim :: "string \<Rightarrow> string" where
  "trim s = rev (dropWhile isSpace (rev (dropWhile isSpace s)))"

text \<open>\<open>s.split("\n")\<close> and \<open>lines.join("\n")\<close>.\<close>

fun split_nl :: "string \<Rightarrow> string list" where
  "split_nl [] = [[]]"
| "split_nl (c # cs) =
     (if c = NL then [] # split_nl cs
      else (case split_nl cs of [] \<Rightarrow> [[c]] | l # ls \<Rightarrow> (c # l) # ls))"

fun join_nl :: "string list \<Rightarrow> string" where
  "join_nl [] = []"
| "join_nl [l] = l"
| "join_nl (l # ls) = l @ NL # join_nl ls"

text \<open>\<open>s.startsWith(sub)\<close>, \<open>s.indexOf(sub, from)\<close> and \<open>s.includes(sub)\<close>; a start below 0 or beyond the
  end is clamped, and -1 says that \<open>sub\<close> does not occur.\<close>

fun startsWith :: "string \<Rightarrow> string \<Rightarrow> bool" where
  "startsWith s [] = True"
| "startsWith [] (c # sub) = False"
| "startsWith (d # s) (c # sub) = (d = c \<and> startsWith s sub)"

fun indexFrom :: "string \<Rightarrow> string \<Rightarrow> nat \<Rightarrow> int" where
  "indexFrom [] sub i = (if sub = [] then int i else - 1)"
| "indexFrom (c # s) sub i =
     (if startsWith (c # s) sub then int i else indexFrom s sub (Suc i))"

definition indexOf :: "string \<Rightarrow> string \<Rightarrow> int \<Rightarrow> int" where
  "indexOf s sub from =
     (let k = min (nat from) (length s) in indexFrom (drop k s) sub k)"

definition includesStr :: "string \<Rightarrow> string \<Rightarrow> bool" where
  "includesStr s sub = (indexOf s sub 0 \<noteq> - 1)"

text \<open>
  Case folding. \<open>canon\<close> is the canonical form a pattern with the flag \<open>i\<close> compares:
  the upper-case letter where it is again one code unit of the same range. \<open>toUpperCase\<close>
  differs on the sharp s only, whose upper case is two letters. The upper-case forms of
  the micro sign and of y with diaeresis lie beyond 255; both stand for themselves here,
  which no comparison with another character of the range notices.
\<close>

definition canon :: "char \<Rightarrow> char" where
  "canon c =
     (let n = (of_char c :: nat)
      in if (97 \<le> n \<and> n \<le> 122) \<or> (224 \<le> n \<and> n \<le> 254 \<and> n \<noteq> 247)
         then char_of (n - 32) else c)"

definition toUpperCase :: "string \<Rightarrow> string" where
  "toUpperCase s = concat (map (\<lambda>c. if c = CHR 0xDF then ''SS'' else [canon c]) s)"

section \<open>Patterns\<close>

text \<open>
  The patterns of the program use a small part of the pattern language: single
  characters and classes, greedy and lazy repetition of a class, a capturing group
  around a lazy repetition, the anchor \<open>^\<close> and alternation. \<open>rxm\<close> is the backtracking
  matcher at one start position: it answers the number of characters matched and the
  captures, \<open>None\<close> when no way through the pattern succeeds. The flag says whether the
  position is the start of the input.
\<close>

datatype rx =
    Chr "char \<Rightarrow> bool"
  | StarG "char \<Rightarrow> bool"
  | StarL "char \<Rightarrow> bool"
  | CapL nat "char \<Rightarrow> bool"
  | Bol
  | Alt "rx list" "rx list"

type_synonym captures = "(nat \<times> string) list"

fun advance :: "(nat \<times> captures) option \<Rightarrow> (nat \<times> captures) option" where
  "advance None = None"
| "advance (Some (n, caps)) = Some (Suc n, caps)"

fun advanceCap :: "char \<Rightarrow> (nat \<times> captures) option \<Rightarrow> (nat \<times> captures) option" where
  "advanceCap c (Some (n, (k, w) # caps)) = Some (Suc n, (k, c # w) # caps)"
| "advanceCap c other = None"

function rxm :: "rx list \<Rightarrow> bool \<Rightarrow> string \<Rightarrow> (nat \<times> captures) option" where
  "rxm [] b s = Some (0, [])"
| "rxm (Chr p # r) b [] = None"
| "rxm (Chr p # r) b (c # s) = (if p c then advance (rxm r False s) else None)"
| "rxm (StarG p # r) b [] = rxm r b []"
| "rxm (StarG p # r) b (c # s) =
     (if p c
      then (case rxm (StarG p # r) False s of
              Some m \<Rightarrow> advance (Some m)
            | None \<Rightarrow> rxm r b (c # s))
      else rxm r b (c # s))"
| "rxm (StarL p # r) b [] = rxm r b []"
| "rxm (StarL p # r) b (c # s) =
     (case rxm r b (c # s) of
        Some m \<Rightarrow> Some m
      | None \<Rightarrow> if p c then advance (rxm (StarL p # r) False s) else None)"
| "rxm (CapL k p # r) b [] =
     (case rxm r b [] of Some (n, caps) \<Rightarrow> Some (n, (k, []) # caps) | None \<Rightarrow> None)"
| "rxm (CapL k p # r) b (c # s) =
     (case rxm r b (c # s) of
        Some (n, caps) \<Rightarrow> Some (n, (k, []) # caps)
      | None \<Rightarrow> if p c then advanceCap c (rxm (CapL k p # r) False s) else None)"
| "rxm (Bol # r) b s = (if b then rxm r b s else None)"
| "rxm (Alt x y # r) b s =
     (case rxm (x @ r) b s of Some m \<Rightarrow> Some m | None \<Rightarrow> rxm (y @ r) b s)"
  by pat_completeness auto
termination
  by (relation "measures [\<lambda>(r, b, s). length s, \<lambda>(r, b, s). size_list size r]")
     (auto simp: size_list_append)

text \<open>
  \<open>rx_exec\<close> is the search of \<open>exec\<close>, \<open>match\<close> and \<open>test\<close>: the first start position, from
  the left, at which the pattern matches. It answers the position, the length of the
  match and the captures.
\<close>

fun rx_exec :: "rx list \<Rightarrow> nat \<Rightarrow> string \<Rightarrow> (nat \<times> nat \<times> captures) option" where
  "rx_exec p i [] =
     (case rxm p (i = 0) [] of Some (n, caps) \<Rightarrow> Some (i, n, caps) | None \<Rightarrow> None)"
| "rx_exec p i (c # s) =
     (case rxm p (i = 0) (c # s) of
        Some (n, caps) \<Rightarrow> Some (i, n, caps)
      | None \<Rightarrow> rx_exec p (Suc i) s)"

definition rx_test :: "rx list \<Rightarrow> string \<Rightarrow> bool" where
  "rx_test p s = (rx_exec p 0 s \<noteq> None)"

text \<open>
  \<open>s.match(p)\<close> for a pattern with the flag \<open>g\<close>: the matched texts from left to right,
  each search starting where the last match ended (one further after an empty match).
  The program's \<open>null\<close> for no match is the empty list here.
\<close>

function rx_match_all :: "rx list \<Rightarrow> nat \<Rightarrow> string \<Rightarrow> string list" where
  "rx_match_all p i s =
     (case rx_exec p i s of
        None \<Rightarrow> []
      | Some (j, n, caps) \<Rightarrow>
          (let k = (j - i) + max n 1
           in take n (drop (j - i) s)
              # (if k \<le> length s then rx_match_all p (i + k) (drop k s) else [])))"
  by pat_completeness auto
termination
  by (relation "measure (\<lambda>(p, i, s). length s)") auto

section \<open>Extraction from Python sources\<close>

datatype error = SyntaxError | IllegalArgument | IllegalLine | Failure string

record CustomRawSqlQueryPyItem =
  functionName :: string
  sqlArgNo :: nat
  isStringTemplate :: bool

record position =
  line :: nat
  character :: int

record code_range =
  start :: position
  finish :: position

record SqlNode =
  code_range :: code_range
  content :: string
  method_line :: nat

record SqlString =
  str_content :: string
  str_start :: position
  str_end :: position

definition defaultConfigs :: "CustomRawSqlQueryPyItem list" where
  "defaultConfigs =
     [\<lparr>functionName = ''execute'', sqlArgNo = 1, isStringTemplate = False\<rparr>,
      \<lparr>functionName = ''executemany'', sqlArgNo = 1, isStringTemplate = False\<rparr>,
      \<lparr>functionName = ''query'', sqlArgNo = 1, isStringTemplate = False\<rparr>,
      \<lparr>functionName = ''raw'', sqlArgNo = 1, isStringTemplate = False\<rparr>,
      \<lparr>functionName = ''text'', sqlArgNo = 1, isStringTemplate = False\<rparr>]"

subsection \<open>The patterns built from a function name\<close>

text \<open>
  The program splices the function name into the pattern source without escaping it.
  A name without a syntax character is a sequence of literal characters, compared after
  case folding under the flag \<open>i\<close>. A name with a syntax character is pattern source of
  its own; \<open>new RegExp\<close> throws a \<open>SyntaxError\<close> on the malformed ones, such as the
  name that is one opening parenthesis. The model does not read pattern syntax inside a
  name: it answers \<open>SyntaxError\<close> for every name with a syntax character, so what it
  says about results concerns names without one.
\<close>

definition syntaxChar :: "char \<Rightarrow> bool" where
  "syntaxChar c = (c \<in> set [CHR ''^'', CHR ''$'', backslash, CHR ''.'', CHR ''*'', CHR ''+'',
     CHR ''?'', CHR ''('', CHR '')'', CHR ''['', CHR '']'', CHR ''{'', CHR ''}'', CHR ''|''])"

definition lit :: "bool \<Rightarrow> char \<Rightarrow> rx" where
  "lit ignoreCase x = Chr (if ignoreCase then (\<lambda>c. canon c = canon x) else (\<lambda>c. c = x))"

definition nameRx :: "bool \<Rightarrow> string \<Rightarrow> error + rx list" where
  "nameRx ignoreCase name =
     (if list_ex syntaxChar name then Inl SyntaxError else Inr (map (lit ignoreCase) name))"

definition isQuote :: "char \<Rightarrow> bool" where
  "isQuote c = (c = dq \<or> c = sq)"

definition isAnyQuote :: "char \<Rightarrow> bool" where
  "isAnyQuote c = (c = dq \<or> c = sq \<or> c = bq)"

definition notQuote :: "char \<Rightarrow> bool" where
  "notQuote c = (c \<noteq> dq \<and> c \<noteq> sq)"

definition anyChar :: "char \<Rightarrow> bool" where
  "anyChar c = True"

text \<open>The pattern of the call test: a dot, the name, blanks and an opening parenthesis,
  or the same without the dot at the start of the line after blanks.\<close>

definition functionPattern :: "CustomRawSqlQueryPyItem \<Rightarrow> error + rx list" where
  "functionPattern config =
     (case nameRx False (functionName config) of
        Inl e \<Rightarrow> Inl e
      | Inr nm \<Rightarrow>
          Inr [Alt ([lit False (CHR ''.'')] @ nm @ [StarG isSpace, lit False (CHR ''('')])
                   ([Bol, StarG isSpace] @ nm @ [StarG isSpace, lit False (CHR ''('')])])"

text \<open>
  The four patterns of \<open>extractSqlString\<close>, all with the flag \<open>i\<close>. Each starts with the
  name, blanks, an opening parenthesis and blanks (\<open>callHead\<close>). Then comes
  \<^item> a quote, a lazy captured run of characters that are no quotes, a quote;
  \<^item> three double quotes, a lazy captured run of any characters, three double quotes,
    or the same with single quotes and the second group;
  \<^item> the letter r and then the first form;
  \<^item> the letter f and then the first form.
\<close>

definition callHead :: "rx list \<Rightarrow> rx list" where
  "callHead nm = nm @ [StarG isSpace, lit True (CHR ''(''), StarG isSpace]"

definition singleLinePattern :: "rx list \<Rightarrow> rx list" where
  "singleLinePattern nm = callHead nm @ [Chr isQuote, CapL 1 notQuote, Chr isQuote]"

definition tripleQuotePattern :: "rx list \<Rightarrow> rx list" where
  "tripleQuotePattern nm = callHead nm @
     [Alt [lit True dq, lit True dq, lit True dq, CapL 1 anyChar,
           lit True dq, lit True dq, lit True dq]
          [lit True sq, lit True sq, lit True sq, CapL 2 anyChar,
           lit True sq, lit True sq, lit True sq]]"

definition prefixedPattern :: "char \<Rightarrow> rx list \<Rightarrow> rx list" where
  "prefixedPattern x nm =
     callHead nm @ [lit True x, Chr isQuote, CapL 1 notQuote, Chr isQuote]"

definition patterns :: "string \<Rightarrow> error + rx list list" where
  "patterns name =
     (case nameRx True name of
        Inl e \<Rightarrow> Inl e
      | Inr nm \<Rightarrow>
          Inr [singleLinePattern nm, tripleQuotePattern nm,
               prefixedPattern (CHR ''r'') nm, prefixedPattern (CHR ''f'') nm])"

subsection \<open>extractSqlString\<close>

text \<open>\<open>a || b\<close> on strings that may be undefined: the empty string is falsy.\<close>

fun jsOr :: "string option \<Rightarrow> string option \<Rightarrow> string option" where
  "jsOr (Some (c # s)) b = Some (c # s)"
| "jsOr a b = b"

text \<open>The loop over the patterns; the first pattern that matches with a capture that is
  not blank returns.\<close>

fun tryPatterns :: "rx list list \<Rightarrow> string \<Rightarrow> SqlString option" where
  "tryPatterns [] functionCall = None"
| "tryPatterns (p # ps) functionCall =
     (case rx_exec p 0 functionCall of
        None \<Rightarrow> tryPatterns ps functionCall
      | Some (idx, n, caps) \<Rightarrow>
          (case jsOr (jsOr (map_of caps 1) (map_of caps 2)) (map_of caps 3) of
             None \<Rightarrow> tryPatterns ps functionCall
           | Some sqlContent \<Rightarrow>
               if sqlContent \<noteq> [] \<and> trim sqlContent \<noteq> []
               then (let match0 = take n (drop idx functionCall);
                         matchStart = indexOf functionCall match0 0;
                         contentStart = indexOf functionCall sqlContent matchStart
                     in Some \<lparr>str_content = trim sqlContent,
                              str_start = \<lparr>line = 0, character = contentStart\<rparr>,
                              str_end = \<lparr>line = 0,
                                character = contentStart + int (length sqlContent)\<rparr>\<rparr>)
               else tryPatterns ps functionCall))"

definition sqlKeywords :: "string list" where
  "sqlKeywords = [''SELECT'', ''INSERT'', ''UPDATE'', ''DELETE'', ''CREATE'', ''ALTER'',
     ''DROP'', ''WITH'']"

text \<open>The pattern of the fallback, with the flag \<open>g\<close>: one of the three quote characters,
  a lazy captured run of any characters, one of the three quote characters. Then
  \<open>stringMatch.slice(1, -1)\<close>.\<close>

definition quotedPattern :: "rx list" where
  "quotedPattern = [Chr isAnyQuote, CapL 1 anyChar, Chr isAnyQuote]"

definition sliceQuotes :: "string \<Rightarrow> string" where
  "sliceQuotes s = take (length s - 2) (drop 1 s)"

definition hasKeyword :: "string \<Rightarrow> bool" where
  "hasKeyword s = list_ex (\<lambda>keyword. includesStr (toUpperCase s) keyword) sqlKeywords"

fun keywordLoop :: "string list \<Rightarrow> string \<Rightarrow> SqlString option" where
  "keywordLoop [] functionCall = None"
| "keywordLoop (stringMatch # rest) functionCall =
     (if hasKeyword (sliceQuotes stringMatch)
      then (let startPos = indexOf functionCall stringMatch 0 + 1
            in Some \<lparr>str_content = trim (sliceQuotes stringMatch),
                     str_start = \<lparr>line = 0, character = startPos\<rparr>,
                     str_end = \<lparr>line = 0,
                       character = startPos + int (length (sliceQuotes stringMatch))\<rparr>\<rparr>)
      else keywordLoop rest functionCall)"

definition keywordFallback :: "string \<Rightarrow> SqlString option" where
  "keywordFallback functionCall =
     keywordLoop (rx_match_all quotedPattern 0 functionCall) functionCall"

definition extractSqlString ::
  "string \<Rightarrow> CustomRawSqlQueryPyItem \<Rightarrow> error + SqlString option" where
  "extractSqlString functionCall config =
     (case patterns (functionName config) of
        Inl e \<Rightarrow> Inl e
      | Inr ps \<Rightarrow>
          (case tryPatterns ps functionCall of
             Some r \<Rightarrow> Inr (Some r)
           | None \<Rightarrow> Inr (keywordFallback functionCall)))"

subsection \<open>extractSqlFromLine\<close>

text \<open>The variables of the scan, and the body of the loop over the characters of one
  line; \<open>i\<close> is the index in the line. \<open>stringChar\<close> is the empty string outside a
  string, as in the program.\<close>

record scan_state =
  parenthesesCount :: int
  inString :: bool
  stringChar :: string
  foundFunction :: bool

definition scanStep :: "string \<Rightarrow> nat \<Rightarrow> scan_state \<Rightarrow> scan_state" where
  "scanStep ln i st =
     (let char = ln ! i;
          prevChar = (if i > 0 then [ln ! (i - 1)] else [])
      in if \<not> inString st then
           (if char = dq \<or> char = sq \<or> (char = bq \<and> \<not> foundFunction st)
            then st\<lparr>inString := True, stringChar := [char]\<rparr>
            else if char = CHR ''(''
            then st\<lparr>parenthesesCount := parenthesesCount st + 1, foundFunction := True\<rparr>
            else if char = CHR '')''
            then st\<lparr>parenthesesCount := parenthesesCount st - 1\<rparr>
            else st)
         else
           (if [char] = stringChar st \<and> prevChar \<noteq> [backslash] then
              (if (stringChar st = [dq] \<or> stringChar st = [sq]) \<and> i \<ge> 2
                  \<and> take 3 (drop (i - 2) ln) = concat (replicate 3 (stringChar st))
               then st
               else st\<lparr>inString := False, stringChar := []\<rparr>)
            else st))"

definition scanLine :: "string \<Rightarrow> scan_state \<Rightarrow> scan_state" where
  "scanLine ln st = fold (scanStep ln) [0..<length ln] st"

text \<open>The loop that collects the call: it stops after the first line at whose end a
  parenthesis has been seen and the count is back at zero, or at the end of the input.
  It answers \<open>fullLine\<close> and \<open>lineOffsets\<close>.\<close>

function collectCall ::
  "string list \<Rightarrow> nat \<Rightarrow> string \<Rightarrow> nat list \<Rightarrow> scan_state \<Rightarrow> string \<times> nat list" where
  "collectCall lines currentLine fullLine lineOffsets st =
     (if currentLine < length lines then
        (let fullLine1 = fullLine @ lines ! currentLine;
             st1 = scanLine (lines ! currentLine) st
         in if foundFunction st1 \<and> parenthesesCount st1 = 0 then (fullLine1, lineOffsets)
            else if Suc currentLine < length lines
            then collectCall lines (Suc currentLine) (fullLine1 @ [NL])
                   (lineOffsets @ [length (fullLine1 @ [NL])]) st1
            else collectCall lines (Suc currentLine) fullLine1 lineOffsets st1)
      else (fullLine, lineOffsets))"
  by pat_completeness auto
termination
  by (relation "measure (\<lambda>(lines, currentLine, fullLine, lineOffsets, st).
        length lines - currentLine)") auto

declare collectCall.simps [simp del]

text \<open>\<open>convertPositionToLineChar\<close>: the first index whose offset and the next enclose
  \<open>charOffset\<close>, index 0 when there is none, and the last index when \<open>charOffset\<close> is
  at or beyond the last offset. \<open>lineOffsets\<close> always starts with the offset 0.\<close>

definition convertPositionToLineChar :: "int \<Rightarrow> nat list \<Rightarrow> nat \<Rightarrow> position" where
  "convertPositionToLineChar charOffset lineOffsets baseLineIndex =
     (let found = find (\<lambda>i. int (lineOffsets ! i) \<le> charOffset
                           \<and> charOffset < int (lineOffsets ! (i + 1)))
                    [0..<length lineOffsets - 1];
          lineIndex0 = (case found of None \<Rightarrow> 0 | Some i \<Rightarrow> i);
          lineIndex = (if lineOffsets \<noteq> [] \<and> charOffset \<ge> int (last lineOffsets)
                       then length lineOffsets - 1 else lineIndex0);
          lineStartOffset = (if lineIndex < length lineOffsets
                             then int (lineOffsets ! lineIndex) else 0)
      in \<lparr>line = baseLineIndex + lineIndex, character = charOffset - lineStartOffset\<rparr>)"

definition initialScan :: scan_state where
  "initialScan = \<lparr>parenthesesCount = 0, inString = False, stringChar = [],
     foundFunction = False\<rparr>"

definition extractSqlFromLine ::
  "string list \<Rightarrow> nat \<Rightarrow> CustomRawSqlQueryPyItem \<Rightarrow> error + SqlNode option" where
  "extractSqlFromLine lines startLineIndex config =
     (case collectCall lines startLineIndex [] [0] initialScan of
        (fullLine, lineOffsets) \<Rightarrow>
          (case extractSqlString fullLine config of
             Inl e \<Rightarrow> Inl e
           | Inr None \<Rightarrow> Inr None
           | Inr (Some sqlString) \<Rightarrow>
               Inr (Some
                 \<lparr>code_range =
                    \<lparr>start = convertPositionToLineChar (character (str_start sqlString))
                               lineOffsets startLineIndex,
                     finish = convertPositionToLineChar (character (str_end sqlString))
                               lineOffsets startLineIndex\<rparr>,
                  content = str_content sqlString,
                  method_line = startLineIndex\<rparr>)))"

subsection \<open>extractSqlFromPython and extractSqlListPy\<close>

text \<open>The loop over the active rules for one line, and the loop over the lines.
  \<open>sqlNodes\<close> is the list built so far. A pattern that cannot be built throws, which
  ends both loops.\<close>

fun configLoop ::
  "string list \<Rightarrow> nat \<Rightarrow> CustomRawSqlQueryPyItem list \<Rightarrow> SqlNode list
     \<Rightarrow> error + SqlNode list" where
  "configLoop lines lineIndex [] sqlNodes = Inr sqlNodes"
| "configLoop lines lineIndex (config # rest) sqlNodes =
     (case functionPattern config of
        Inl e \<Rightarrow> Inl e
      | Inr p \<Rightarrow>
          if rx_test p (trim (lines ! lineIndex))
          then (case extractSqlFromLine lines lineIndex config of
                  Inl e \<Rightarrow> Inl e
                | Inr None \<Rightarrow> configLoop lines lineIndex rest sqlNodes
                | Inr (Some sqlResult) \<Rightarrow>
                    configLoop lines lineIndex rest (sqlNodes @ [sqlResult]))
          else configLoop lines lineIndex rest sqlNodes)"

function lineLoop ::
  "string list \<Rightarrow> nat \<Rightarrow> CustomRawSqlQueryPyItem list \<Rightarrow> SqlNode list
     \<Rightarrow> error + SqlNode list" where
  "lineLoop lines lineIndex activeConfigs sqlNodes =
     (if lineIndex < length lines then
        (case configLoop lines lineIndex activeConfigs sqlNodes of
           Inl e \<Rightarrow> Inl e
         | Inr sqlNodes1 \<Rightarrow> lineLoop lines (Suc lineIndex) activeConfigs sqlNodes1)
      else Inr sqlNodes)"
  by pat_completeness auto
termination
  by (relation "measure (\<lambda>(lines, lineIndex, activeConfigs, sqlNodes).
        length lines - lineIndex)") auto

declare lineLoop.simps [simp del]

text \<open>\<open>configs || defaultConfigs\<close>: only an absent list is falsy, an empty list of rules
  stays.\<close>

definition extractSqlFromPython ::
  "string \<Rightarrow> CustomRawSqlQueryPyItem list option \<Rightarrow> error + SqlNode list" where
  "extractSqlFromPython sourceTxt configs =
     (let activeConfigs = (case configs of None \<Rightarrow> defaultConfigs | Some cs \<Rightarrow> cs)
      in lineLoop (split_nl sourceTxt) 0 activeConfigs [])"

definition extractSqlListPy ::
  "string \<Rightarrow> CustomRawSqlQueryPyItem list option \<Rightarrow> SqlNode list" where
  "extractSqlListPy sourceTxt configs =
     (case extractSqlFromPython sourceTxt configs of
        Inl e \<Rightarrow> []
      | Inr sqlNodes \<Rightarrow> sqlNodes)"

section \<open>Virtual documents: refresh\<close>

text \<open>
  A host document of the editor: its file name, its language and its text. Lines end
  with the line feed; the editor's own line table is the one of \<open>split_nl\<close> then.
\<close>

record TextDocument =
  fileName :: string
  languageId :: string
  getText :: string

text \<open>\<open>new vscode.Position(line, character)\<close> throws on a negative number.\<close>

definition newPosition :: "nat \<Rightarrow> int \<Rightarrow> error + position" where
  "newPosition l c = (if c < 0 then Inl IllegalArgument else Inr \<lparr>line = l, character = c\<rparr>)"

text \<open>\<open>document.offsetAt(position)\<close>: a line beyond the last one stands for the end of
  the text, a column beyond the end of its line for the end of the line.\<close>

definition lineStart :: "string list \<Rightarrow> nat \<Rightarrow> nat" where
  "lineStart ls l = sum_list (map (\<lambda>x. length x + 1) (take l ls))"

definition offsetAt :: "string \<Rightarrow> position \<Rightarrow> nat" where
  "offsetAt txt pos =
     (let ls = split_nl txt
      in if line pos \<ge> length ls then length txt
         else lineStart ls (line pos)
              + min (nat (character pos)) (length (ls ! line pos)))"

text \<open>\<open>rawContent.slice(0, offset)\<close> with every character but the line feed replaced by
  a space, and the text of the virtual document of a fragment.\<close>

definition blankPrefix :: "string \<Rightarrow> nat \<Rightarrow> string" where
  "blankPrefix rawContent offset =
     map (\<lambda>c. if c = NL then NL else CHR '' '') (take offset rawContent)"

definition virtualText :: "string \<Rightarrow> 'a SqlNode_scheme \<Rightarrow> string" where
  "virtualText rawContent sqlNode =
     blankPrefix rawContent (offsetAt rawContent (start (code_range sqlNode)))
     @ content sqlNode"

text \<open>The index in decimal, as the template string writes it, and the name of a virtual
  file.\<close>

fun showNat :: "nat \<Rightarrow> string" where
  "showNat n =
     (if n < 10 then [char_of (48 + n)]
      else showNat (n div 10) @ [char_of (48 + n mod 10)])"

declare showNat.simps [simp del]

definition virtualFileName :: "string \<Rightarrow> nat \<Rightarrow> string" where
  "virtualFileName fname index = fname @ ''@'' @ showNat index @ ''.sql''"

text \<open>
  Modelled from the spec: the language service's store of snapshots, whose code is not
  among the sources. The spec calls it the backing store in which a key is written
  (created or overwritten) or deleted; it is a map from keys to texts here.
\<close>

type_synonym snapshot_store = "string \<rightharpoonup> string"

definition writeSnapshot :: "string \<Rightarrow> string \<Rightarrow> snapshot_store \<Rightarrow> snapshot_store" where
  "writeSnapshot key txt store = store(key \<mapsto> txt)"

definition deleteSnapshot :: "string \<Rightarrow> snapshot_store \<Rightarrow> snapshot_store" where
  "deleteSnapshot key store = store(key := None)"

text \<open>
  The state that \<open>refresh\<close> changes: \<open>virtualContents\<close>, the list of keys of each host
  file, and the snapshots. What \<open>refresh\<close> reads from its surroundings: whether the
  language service can be had (an error when \<open>getOrCreateLanguageService\<close> throws), and
  the setting \<open>customRawSqlQuery\<close> (an error when \<open>getWorkspaceConfig\<close> throws, nothing
  when the setting is refused). For the language typescript the rules of the setting
  have another shape, which \<open>refresh\<close> never reads.
\<close>

record refresh_state =
  virtualContents :: "string \<rightharpoonup> string list"
  snapshots :: snapshot_store

record customRawSqlQuery =
  language :: string
  configs :: "CustomRawSqlQueryPyItem list"

record refresh_env =
  languageService :: "error option"
  customRawSqlQuerySetting :: "error + customRawSqlQuery option"

record SqlNodeWithVirtualDoc = SqlNode +
  vFileName :: string
  index :: nat

text \<open>The first \<open>map\<close>: one snapshot for each fragment, written in order. It answers the
  names and the store; a throw leaves the snapshots written so far.\<close>

fun writeVirtualFiles ::
  "TextDocument \<Rightarrow> SqlNode list \<Rightarrow> nat \<Rightarrow> snapshot_store
     \<Rightarrow> (error + string list) \<times> snapshot_store" where
  "writeVirtualFiles document [] idx store = (Inr [], store)"
| "writeVirtualFiles document (sqlNode # rest) idx store =
     (case newPosition (line (start (code_range sqlNode)))
             (character (start (code_range sqlNode))) of
        Inl e \<Rightarrow> (Inl e, store)
      | Inr pos \<Rightarrow>
          (let name = virtualFileName (fileName document) idx;
               offset = offsetAt (getText document) pos;
               store1 = writeSnapshot name
                          (blankPrefix (getText document) offset @ content sqlNode) store
           in case writeVirtualFiles document rest (Suc idx) store1 of
                (Inl e, store2) \<Rightarrow> (Inl e, store2)
              | (Inr names, store2) \<Rightarrow> (Inr (name # names), store2)))"

text \<open>The removal of the virtual files that are no longer used.\<close>

definition unusedFileNames :: "string list \<Rightarrow> string list \<Rightarrow> string list" where
  "unusedFileNames lastVirtualFileNames vFileNames =
     filter (\<lambda>name. name \<notin> set vFileNames) lastVirtualFileNames"

definition removeUnused :: "string list \<Rightarrow> snapshot_store \<Rightarrow> snapshot_store" where
  "removeUnused names store = fold deleteSnapshot names store"

text \<open>The last \<open>map\<close>: each fragment with its virtual file name and index; it throws
  where the name is missing.\<close>

fun withVirtualDoc ::
  "SqlNode list \<Rightarrow> string list \<Rightarrow> nat \<Rightarrow> error + SqlNodeWithVirtualDoc list" where
  "withVirtualDoc [] vFileNames idx = Inr []"
| "withVirtualDoc (block # rest) vFileNames idx =
     (if idx < length vFileNames
      then (case withVirtualDoc rest vFileNames (Suc idx) of
              Inl e \<Rightarrow> Inl e
            | Inr out \<Rightarrow>
                Inr (SqlNode.extend block
                       \<lparr>vFileName = vFileNames ! idx, index = idx\<rparr> # out))
      else Inl (Failure ''vFileName is undefined''))"

text \<open>The fragments that \<open>refresh\<close> extracts: the setting counts only when its language
  is the document's.\<close>

definition activeSetting :: "customRawSqlQuery option \<Rightarrow> string \<Rightarrow> customRawSqlQuery option" where
  "activeSetting config lang =
     (case config of
        None \<Rightarrow> None
      | Some q \<Rightarrow> if language q \<noteq> lang then None else Some q)"

definition refreshBody ::
  "refresh_env \<Rightarrow> TextDocument \<Rightarrow> refresh_state
     \<Rightarrow> (error + SqlNodeWithVirtualDoc list) \<times> refresh_state" where
  "refreshBody env document st =
     (case languageService env of
        Some e \<Rightarrow> (Inl e, st)
      | None \<Rightarrow>
     (case customRawSqlQuerySetting env of
        Inl e \<Rightarrow> (Inl e, st)
      | Inr config \<Rightarrow>
     (if languageId document = ''python'' then
        (let config1 = activeSetting config (languageId document);
             sqlNodes = extractSqlListPy (getText document) (map_option configs config1);
             lastVirtualFileNames =
               (case virtualContents st (fileName document) of None \<Rightarrow> [] | Some ns \<Rightarrow> ns)
         in case writeVirtualFiles document sqlNodes 0 (snapshots st) of
              (Inl e, store1) \<Rightarrow> (Inl e, st\<lparr>snapshots := store1\<rparr>)
            | (Inr vFileNames, store1) \<Rightarrow>
                (let store2 = removeUnused
                                (unusedFileNames lastVirtualFileNames vFileNames) store1;
                     st2 = \<lparr>virtualContents =
                              (virtualContents st)(fileName document \<mapsto> vFileNames),
                            snapshots = store2\<rparr>
                 in (withVirtualDoc sqlNodes vFileNames 0, st2)))
      else (Inr [], st))))"

text \<open>\<open>refresh\<close> itself: the body inside \<open>try\<close>, and the empty list from \<open>catch\<close>.\<close>

definition refresh ::
  "refresh_env \<Rightarrow> TextDocument \<Rightarrow> refresh_state
     \<Rightarrow> SqlNodeWithVirtualDoc list \<times> refresh_state" where
  "refresh env document st =
     (case refreshBody env document st of
        (Inl e, st1) \<Rightarrow> ([], st1)
      | (Inr sqlNodes, st1) \<Rightarrow> (sqlNodes, st1))"

section \<open>Formatting a fragment\<close>

text \<open>
  What \<open>formatSqlNode\<close> reads from its surroundings: the SQL formatter with its options
  (\<open>format\<close>, which may throw), the setting \<open>formatSql.indent\<close>, the active editor with
  its tab size and its document, and the TypeScript compiler's
  \<open>getPositionOfLineAndCharacter\<close> on a source text (which may throw). The formatter
  and the compiler are libraries; they are parameters here.
\<close>

datatype tab_size = TabNumber nat | TabString string | TabUndefined

record text_editor =
  tabSize :: tab_size
  editorDocument :: TextDocument

record format_env =
  format :: "string \<Rightarrow> error + string"
  formatSqlIndent :: "bool option"
  activeTextEditor :: "text_editor option"
  getPositionOfLineAndCharacter :: "string \<Rightarrow> nat \<Rightarrow> int \<Rightarrow> error + int"

text \<open>One replacement registered with the edit builder. \<open>new vscode.Range\<close> puts the
  earlier of its two positions first.\<close>

record text_edit =
  editRange :: code_range
  newText :: string

definition isBefore :: "position \<Rightarrow> position \<Rightarrow> bool" where
  "isBefore p q = (line p < line q \<or> (line p = line q \<and> character p < character q))"

definition newRange :: "position \<Rightarrow> position \<Rightarrow> code_range" where
  "newRange p q = (if isBefore q p then \<lparr>start = q, finish = p\<rparr> else \<lparr>start = p, finish = q\<rparr>)"

text \<open>\<open>getPrefixAndSuffix\<close>: the leading blanks of the content without the spaces at
  their end, and the trailing blanks of the content.\<close>

definition getPrefixAndSuffix :: "string \<Rightarrow> string \<times> string" where
  "getPrefixAndSuffix cont =
     (rev (dropWhile (\<lambda>c. c = CHR '' '') (rev (takeWhile isSpace cont))),
      rev (takeWhile isSpace (rev cont)))"

text \<open>\<open>getPositions\<close>. \<open>lineLength\<close> is \<open>lines[i]?.length || 0\<close>.\<close>

definition lineLength :: "string list \<Rightarrow> nat \<Rightarrow> int" where
  "lineLength ls i = (if i < length ls then int (length (ls ! i)) else 0)"

definition isTypeScript :: "TextDocument \<Rightarrow> bool" where
  "isTypeScript document =
     (languageId document = ''typescript'' \<or> languageId document = ''javascript'')"

definition getPositions ::
  "format_env \<Rightarrow> SqlNode \<Rightarrow> TextDocument \<Rightarrow> string \<Rightarrow> string \<Rightarrow> error + int \<times> int" where
  "getPositions env sqlNode document pre suf =
     (let sourceText = getText document;
          s = start (code_range sqlNode);
          e = finish (code_range sqlNode)
      in if \<not> isTypeScript document then
           (let ls = split_nl sourceText;
                startPosition = sum_list (map (\<lambda>i. lineLength ls i + 1) [0..<line s])
                                + character s - int (length pre);
                endPosition = startPosition
                              + sum_list (map (\<lambda>i. lineLength ls i + 1) [line s..<line e])
                              + (character e - character s + int (length suf))
            in Inr (startPosition, endPosition))
         else
           (case getPositionOfLineAndCharacter env sourceText (line s) (character s) of
              Inl err \<Rightarrow> Inl err
            | Inr p \<Rightarrow>
                (case getPositionOfLineAndCharacter env sourceText (line e) (character e) of
                   Inl err \<Rightarrow> Inl err
                 | Inr q \<Rightarrow> Inr (p - int (length pre), q + int (length suf)))))"

text \<open>\<open>shouldSkipFormatting\<close>. \<open>charAt\<close> is \<open>sourceText[k]\<close>, undefined outside the text;
  the pattern of the test accepts the double and the single quote.\<close>

definition charAt :: "string \<Rightarrow> int \<Rightarrow> char option" where
  "charAt s k = (if 0 \<le> k \<and> k < int (length s) then Some (s ! nat k) else None)"

definition quoteAt :: "string \<Rightarrow> int \<Rightarrow> bool" where
  "quoteAt s k = (case charAt s k of None \<Rightarrow> False | Some c \<Rightarrow> isQuote c)"

definition shouldSkipFormatting :: "TextDocument \<Rightarrow> int \<Rightarrow> int \<Rightarrow> bool" where
  "shouldSkipFormatting document startPosition endPosition =
     (isTypeScript document
      \<and> quoteAt (getText document) (startPosition - 1)
      \<and> quoteAt (getText document) endPosition)"

text \<open>\<open>indentedContent\<close>. The tab size is 2 unless the editor gives a number; \<open>lineAt\<close>
  throws on a line the document does not have.\<close>

definition effectiveTabSize :: "text_editor option \<Rightarrow> nat" where
  "effectiveTabSize ed =
     (case ed of
        None \<Rightarrow> 2
      | Some e \<Rightarrow> (case tabSize e of TabNumber n \<Rightarrow> n | TabString s \<Rightarrow> 2 | TabUndefined \<Rightarrow> 2))"

definition lineAt :: "TextDocument \<Rightarrow> nat \<Rightarrow> error + string" where
  "lineAt document l =
     (let ls = split_nl (getText document)
      in if l < length ls then Inr (ls ! l) else Inl IllegalLine)"

definition indentLines :: "string \<Rightarrow> string \<Rightarrow> string \<Rightarrow> string" where
  "indentLines indents oneLevelDown cont =
     join_nl (map (\<lambda>ln. indents @ oneLevelDown @ ln) (split_nl cont))"

definition indentedContent :: "format_env \<Rightarrow> string \<Rightarrow> nat \<Rightarrow> error + string" where
  "indentedContent env cont methodLine =
     (let ts = effectiveTabSize (activeTextEditor env)
      in case activeTextEditor env of
           None \<Rightarrow> Inr cont
         | Some e \<Rightarrow>
             (case lineAt (editorDocument e) methodLine of
                Inl err \<Rightarrow> Inl err
              | Inr lineText \<Rightarrow>
                  if lineText = [] then Inr cont
                  else (let indents = takeWhile isSpace lineText
                        in if indents = [] then Inr cont
                           else Inr (indentLines indents (take ts indents) cont))))"

text \<open>\<open>formatSqlNode\<close>: the replacements it registers, none or one. The first test is
  the one for a content of blanks only; \<open>formattedEdit\<close> is the end that both branches
  share, from the call of the formatter to \<open>editBuilder.replace\<close>.\<close>

definition formattedEdit :: "format_env \<Rightarrow> SqlNode \<Rightarrow> string \<Rightarrow> string \<Rightarrow> error + text_edit list" where
  "formattedEdit env sqlNode pre suf =
     (case format env (content sqlNode) of
        Inl err \<Rightarrow> Inl err
      | Inr formatted \<Rightarrow>
          (case (if formatSqlIndent env = Some True
                 then indentedContent env formatted (method_line sqlNode)
                 else Inr formatted) of
             Inl err \<Rightarrow> Inl err
           | Inr formattedContent \<Rightarrow>
               (case newPosition (line (start (code_range sqlNode)))
                       (character (start (code_range sqlNode))) of
                  Inl err \<Rightarrow> Inl err
                | Inr p \<Rightarrow>
                    (case newPosition (line (finish (code_range sqlNode)))
                            (character (finish (code_range sqlNode))) of
                       Inl err \<Rightarrow> Inl err
                     | Inr q \<Rightarrow>
                         Inr [\<lparr>editRange = newRange p q,
                               newText = pre @ formattedContent @ suf\<rparr>]))))"

definition formatSqlNode ::
  "format_env \<Rightarrow> SqlNode \<Rightarrow> TextDocument \<Rightarrow> error + text_edit list" where
  "formatSqlNode env sqlNode document =
     (if list_all isSpace (content sqlNode) then Inr []
      else (case getPrefixAndSuffix (content sqlNode) of
              (pre, suf) \<Rightarrow>
                if languageId document = ''python'' then formattedEdit env sqlNode pre suf
                else (case getPositions env sqlNode document pre suf of
                        Inl err \<Rightarrow> Inl err
                      | Inr (startPosition, endPosition) \<Rightarrow>
                          if shouldSkipFormatting document startPosition endPosition
                          then Inr []
                          else formattedEdit env sqlNode pre suf)))"

section \<open>Notions the properties are stated with\<close>

text \<open>\<open>document.positionAt(offset)\<close>: the line and the column of an offset in a text.\<close>

definition positionAt :: "string \<Rightarrow> nat \<Rightarrow> position" where
  "positionAt txt offset =
     (let before = take offset txt
      in \<lparr>line = length (filter (\<lambda>c. c = NL) before),
          character = int (length (takeWhile (\<lambda>c. c \<noteq> NL) (rev before)))\<rparr>)"

text \<open>The number of quote characters of a text, and a lower bound of that number for
  the texts a pattern can match: the single characters of the pattern that accept
  nothing but a quote character.\<close>

definition quoteCount :: "string \<Rightarrow> nat" where
  "quoteCount s = length (filter isAnyQuote s)"









text \<open>An instance of the compiler's position function for texts whose lines end with
  the line feed: the start of the line plus the column, an error beyond the text.\<close>

definition positionOfLineAndCharacter :: "string \<Rightarrow> nat \<Rightarrow> int \<Rightarrow> error + int" where
  "positionOfLineAndCharacter txt l c =
     (let ls = split_nl txt
      in if l < length ls \<and> 0 \<le> c \<and> c \<le> int (length (ls ! l))
         then Inr (int (lineStart ls l) + c)
         else Inl (Failure ''Debug Failure''))"

section \<open>Sample inputs\<close>

definition rule :: "string \<Rightarrow> CustomRawSqlQueryPyItem" where
  "rule name = \<lparr>functionName = name, sqlArgNo = 1, isStringTemplate = False\<rparr>"

text \<open>The call of the spec's example, an unterminated call without and with a closed
  literal, a triple-quoted block over three lines, two calls on one line, and a call
  with an empty first argument.\<close>

definition simpleCall :: string where
  "simpleCall = ''cursor.execute('' @ [dq] @ ''SELECT * FROM users'' @ [dq] @ '')''"



definition blockCall :: string where
  "blockCall = ''cursor.execute('' @ [dq, dq, dq, NL] @ ''    SELECT 1'' @ [NL, dq, dq, dq]
     @ '')''"




definition pyDocument :: "string \<Rightarrow> TextDocument" where
  "pyDocument txt = \<lparr>fileName = ''a.py'', languageId = ''python'', getText = txt\<rparr>"

definition tsDocument :: "string \<Rightarrow> TextDocument" where
  "tsDocument txt = \<lparr>fileName = ''a.ts'', languageId = ''typescript'', getText = txt\<rparr>"

definition quietEnv :: refresh_env where
  "quietEnv = \<lparr>languageService = None, customRawSqlQuerySetting = Inr None\<rparr>"

definition emptyState :: refresh_state where
  "emptyState = \<lparr>virtualContents = Map.empty, snapshots = Map.empty\<rparr>"

definition indentingEnv :: format_env where
  "indentingEnv =
     \<lparr>format = Inr, formatSqlIndent = Some True,
      activeTextEditor =
        Some \<lparr>tabSize = TabNumber 4, editorDocument = pyDocument ''    cursor.execute(''\<rparr>,
      getPositionOfLineAndCharacter = positionOfLineAndCharacter\<rparr>"

text \<open>A call in a TypeScript text with its fragment, and a fragment of blanks.\<close>

definition tsCall :: string where
  "tsCall = ''sql('' @ [dq] @ ''SELECT 1'' @ [dq] @ '')''"

definition tsNode :: SqlNode where
  "tsNode = \<lparr>code_range = \<lparr>start = \<lparr>line = 0, character = 5\<rparr>,
                finish = \<lparr>line = 0, character = 13\<rparr>\<rparr>,
              content = ''SELECT 1'', method_line = 0\<rparr>"

definition blankNode :: SqlNode where
  "blankNode = \<lparr>code_range = \<lparr>start = \<lparr>line = 0, character = 16\<rparr>,
                   finish = \<lparr>line = 0, character = 19\<rparr>\<rparr>,
                 content = [CHR '' '', CHR 0x09, NL], method_line = 0\<rparr>"

text \<open>A rule whose name is no pattern, a language service that cannot be had, and a
  setting for another language than Python.\<close>

definition badRule :: CustomRawSqlQueryPyItem where
  "badRule = rule ''(''"

definition failingEnv :: refresh_env where
  "failingEnv = \<lparr>languageService = Some (Failure ''no language service''),
                  customRawSqlQuerySetting = Inr None\<rparr>"

definition foreignSetting :: customRawSqlQuery where
  "foreignSetting = \<lparr>language = ''typescript'', configs = [rule ''sql'']\<rparr>"


text \<open>The same call with another statement, and the states after a first refresh of
  the one and a second refresh of the other.\<close>

definition otherCall :: string where
  "otherCall = ''cursor.execute('' @ [dq] @ ''DELETE FROM users'' @ [dq] @ '')''"

definition stateAfterFirst :: refresh_state where
  "stateAfterFirst = snd (refreshBody quietEnv (pyDocument simpleCall) emptyState)"

definition stateAfterSecond :: refresh_state where
  "stateAfterSecond = snd (refreshBody quietEnv (pyDocument otherCall) stateAfterFirst)"

definition firstFragment :: SqlNodeWithVirtualDoc where
  "firstFragment =
     \<lparr>code_range = \<lparr>start = \<lparr>line = 0, character = 16\<rparr>,
                     finish = \<lparr>line = 0, character = 35\<rparr>\<rparr>,
      content = ''SELECT * FROM users'', method_line = 0,
      vFileName = ''a.py@0.sql'', index = 0\<rparr>"

definition secondFragment :: SqlNodeWithVirtualDoc where
  "secondFragment =
     \<lparr>code_range = \<lparr>start = \<lparr>line = 0, character = 16\<rparr>,
                     finish = \<lparr>line = 0, character = 33\<rparr>\<rparr>,
      content = ''DELETE FROM users'', method_line = 0,
      vFileName = ''a.py@0.sql'', index = 0\<rparr>"

text \<open>The fragments that extraction finds in the samples.\<close>

definition blockNode :: SqlNode where
  "blockNode = \<lparr>code_range = \<lparr>start = \<lparr>line = 0, character = 18\<rparr>,
                   finish = \<lparr>line = 2, character = 0\<rparr>\<rparr>,
                 content = ''SELECT 1'', method_line = 0\<rparr>"





section \<open>Properties\<close>

subsection \<open>Fragments that formatting leaves alone\<close>

text \<open>
  C10. A fragment whose content is empty or made of whitespace only is not formatted:
  \<open>formatSqlNode\<close> registers no replacement for it, whatever the document, the
  formatter and the settings are.
\<close>

theorem blank_content_no_edit:
  assumes "list_all isSpace (content sqlNode)"
  shows "formatSqlNode env sqlNode document = Inr []"
  using assms by (simp add: formatSqlNode_def)

theorem blank_content_no_edit_witness:
  "list_all isSpace (content blankNode)
   \<and> formatSqlNode indentingEnv blankNode (pyDocument simpleCall) = Inr []"
proof -
  have h: "list_all isSpace (content blankNode)"
    by (simp add: blankNode_def isSpace_def)
  from blank_content_no_edit [OF h] h show ?thesis by blast
qed

text \<open>
  C9. In a TypeScript or JavaScript document, when the character just before the start
  position computed for a fragment and the character at its end position are both
  quote characters (double or single), \<open>formatSqlNode\<close> registers no replacement.
\<close>

theorem quoted_span_no_edit:
  assumes ts: "languageId document = ''typescript'' \<or> languageId document = ''javascript''"
    and pos: "getPositions env sqlNode document
                (fst (getPrefixAndSuffix (content sqlNode)))
                (snd (getPrefixAndSuffix (content sqlNode))) = Inr (startPosition, endPosition)"
    and before: "charAt (getText document) (startPosition - 1) = Some a" "isQuote a"
    and after: "charAt (getText document) endPosition = Some b" "isQuote b"
  shows "formatSqlNode env sqlNode document = Inr []"
proof -
  have py: "languageId document \<noteq> ''python''"
    using ts by auto
  have skip: "shouldSkipFormatting document startPosition endPosition"
    using ts before after by (simp add: shouldSkipFormatting_def isTypeScript_def quoteAt_def)
  obtain pre suf where ps: "getPrefixAndSuffix (content sqlNode) = (pre, suf)"
    by (cases "getPrefixAndSuffix (content sqlNode)")
  show ?thesis
    using py pos skip ps by (simp add: formatSqlNode_def)
qed

theorem quoted_span_no_edit_witness:
  "languageId (tsDocument tsCall) = ''typescript''
   \<and> getPositions indentingEnv tsNode (tsDocument tsCall)
        (fst (getPrefixAndSuffix (content tsNode)))
        (snd (getPrefixAndSuffix (content tsNode))) = Inr (5, 13)
   \<and> charAt (getText (tsDocument tsCall)) (5 - 1) = Some dq \<and> isQuote dq
   \<and> charAt (getText (tsDocument tsCall)) 13 = Some dq
   \<and> formatSqlNode indentingEnv tsNode (tsDocument tsCall) = Inr []"
proof -
  have l: "languageId (tsDocument tsCall) = ''typescript''
           \<or> languageId (tsDocument tsCall) = ''javascript''"
    by (simp add: tsDocument_def)
  have p: "getPositions indentingEnv tsNode (tsDocument tsCall)
        (fst (getPrefixAndSuffix (content tsNode)))
        (snd (getPrefixAndSuffix (content tsNode))) = Inr (5, 13)"
    by code_simp
  have a: "charAt (getText (tsDocument tsCall)) (5 - 1) = Some dq"
    by code_simp
  have b: "charAt (getText (tsDocument tsCall)) 13 = Some dq"
    by code_simp
  have q: "isQuote dq"
    by (simp add: isQuote_def)
  from quoted_span_no_edit [OF l p a q b q] l p a b q show ?thesis
    by (simp add: tsDocument_def)
qed

subsection \<open>Exceptions stay inside the entry points\<close>

lemma refresh_catches:
  "fst (refreshBody env document st) = Inl e \<Longrightarrow> fst (refresh env document st) = []"
  by (cases "refreshBody env document st") (simp add: refresh_def)

lemma refreshBody_service_throws:
  "languageService env = Some e \<Longrightarrow> refreshBody env document st = (Inl e, st)"
  by (simp add: refreshBody_def)

lemma refreshBody_setting_throws:
  "languageService env = None \<Longrightarrow> customRawSqlQuerySetting env = Inl e
   \<Longrightarrow> refreshBody env document st = (Inl e, st)"
  by (simp add: refreshBody_def)

text \<open>
  C5. The entry points answer a list on every input: \<open>extractSqlListPy\<close> answers the
  empty list when \<open>extractSqlFromPython\<close> throws, and \<open>refresh\<close> answers the empty list
  when its body throws, in particular when the language service or the setting cannot
  be had or the writing of the virtual files throws.
\<close>

theorem entry_points_catch:
  "(extractSqlFromPython sourceTxt cfgs = Inl e \<longrightarrow> extractSqlListPy sourceTxt cfgs = [])
   \<and> (fst (refreshBody env document st) = Inl e' \<longrightarrow> fst (refresh env document st) = [])
   \<and> (languageService env = Some e' \<longrightarrow> fst (refresh env document st) = [])
   \<and> (customRawSqlQuerySetting env = Inl e' \<longrightarrow> fst (refresh env document st) = [])
   \<and> (languageService env = None \<and> customRawSqlQuerySetting env = Inr config
        \<and> languageId document = ''python''
        \<and> fst (writeVirtualFiles document
                 (extractSqlListPy (getText document)
                    (map_option configs (activeSetting config (languageId document))))
                 0 (snapshots st)) = Inl e'
      \<longrightarrow> fst (refresh env document st) = [])"
proof (intro conjI impI)
  assume "extractSqlFromPython sourceTxt cfgs = Inl e"
  then show "extractSqlListPy sourceTxt cfgs = []"
    by (simp add: extractSqlListPy_def)
next
  assume "fst (refreshBody env document st) = Inl e'"
  then show "fst (refresh env document st) = []"
    by (rule refresh_catches)
next
  assume "languageService env = Some e'"
  then show "fst (refresh env document st) = []"
    by (simp add: refreshBody_service_throws refresh_def)
next
  assume s: "customRawSqlQuerySetting env = Inl e'"
  show "fst (refresh env document st) = []"
  proof (cases "languageService env")
    case None
    with s show ?thesis by (simp add: refreshBody_setting_throws refresh_def)
  next
    case (Some e2)
    then show ?thesis by (simp add: refreshBody_service_throws refresh_def)
  qed
next
  assume a: "languageService env = None \<and> customRawSqlQuerySetting env = Inr config
        \<and> languageId document = ''python''
        \<and> fst (writeVirtualFiles document
                 (extractSqlListPy (getText document)
                    (map_option configs (activeSetting config (languageId document))))
                 0 (snapshots st)) = Inl e'"
  then obtain store1 where
    "writeVirtualFiles document
       (extractSqlListPy (getText document)
          (map_option configs (activeSetting config ''python'')))
       0 (snapshots st) = (Inl e', store1)"
    by (metis prod.collapse)
  with a have "fst (refreshBody env document st) = Inl e'"
    by (simp add: refreshBody_def)
  then show "fst (refresh env document st) = []"
    by (rule refresh_catches)
qed

theorem entry_points_catch_witness:
  "extractSqlFromPython simpleCall (Some [badRule]) = Inl SyntaxError
   \<and> extractSqlListPy simpleCall (Some [badRule]) = []
   \<and> languageService failingEnv = Some (Failure ''no language service'')
   \<and> fst (refresh failingEnv (pyDocument simpleCall) emptyState) = []"
proof -
  have t: "extractSqlFromPython simpleCall (Some [badRule]) = Inl SyntaxError"
    by code_simp
  have s: "languageService failingEnv = Some (Failure ''no language service'')"
    by (simp add: failingEnv_def)
  from entry_points_catch [of simpleCall "Some [badRule]" SyntaxError
      failingEnv "pyDocument simpleCall" emptyState "Failure ''no language service''"]
    t s show ?thesis by blast
qed

subsection \<open>A setting for another language\<close>

lemma extract_default:
  "extractSqlFromPython src None = extractSqlFromPython src (Some defaultConfigs)"
  by (simp add: extractSqlFromPython_def)

lemma refreshBody_foreign:
  assumes "language q \<noteq> languageId document"
  shows "refreshBody (env\<lparr>customRawSqlQuerySetting := Inr (Some q)\<rparr>) document st
           = refreshBody (env\<lparr>customRawSqlQuerySetting := Inr None\<rparr>) document st"
proof (cases "languageId document = ''python''")
  case True
  with assms have "language q \<noteq> ''python''" by simp
  then have a: "activeSetting (Some q) ''python'' = activeSetting None ''python''"
    by (simp add: activeSetting_def)
  show ?thesis
    using True by (cases "languageService env") (simp_all add: refreshBody_def a)
next
  case False
  then show ?thesis
    by (cases "languageService env") (simp_all add: refreshBody_def)
qed

text \<open>
  C8. When the setting \<open>customRawSqlQuery\<close> declares another language than the
  document's, \<open>refresh\<close> does what it does without the setting, and the extraction it
  runs is the one with the default rules: execute, executemany, query, raw and text,
  each with argument 1.
\<close>

theorem foreign_setting_ignored:
  assumes "language q \<noteq> languageId document"
  shows "refresh (env\<lparr>customRawSqlQuerySetting := Inr (Some q)\<rparr>) document st
           = refresh (env\<lparr>customRawSqlQuerySetting := Inr None\<rparr>) document st
         \<and> extractSqlListPy (getText document)
             (map_option configs (activeSetting (Some q) (languageId document)))
           = extractSqlListPy (getText document) (Some defaultConfigs)
         \<and> map functionName defaultConfigs
           = [''execute'', ''executemany'', ''query'', ''raw'', ''text'']
         \<and> map sqlArgNo defaultConfigs = [1, 1, 1, 1, 1]"
proof (intro conjI)
  show "refresh (env\<lparr>customRawSqlQuerySetting := Inr (Some q)\<rparr>) document st
           = refresh (env\<lparr>customRawSqlQuerySetting := Inr None\<rparr>) document st"
    by (simp add: refresh_def refreshBody_foreign [OF assms])
  show "extractSqlListPy (getText document)
             (map_option configs (activeSetting (Some q) (languageId document)))
           = extractSqlListPy (getText document) (Some defaultConfigs)"
    using assms by (simp add: activeSetting_def extractSqlListPy_def extract_default)
  show "map functionName defaultConfigs
           = [''execute'', ''executemany'', ''query'', ''raw'', ''text'']"
    by (simp add: defaultConfigs_def)
  show "map sqlArgNo defaultConfigs = [1, 1, 1, 1, 1]"
    by (simp add: defaultConfigs_def)
qed

theorem foreign_setting_ignored_witness:
  "language foreignSetting \<noteq> languageId (pyDocument simpleCall)
   \<and> refresh (quietEnv\<lparr>customRawSqlQuerySetting := Inr (Some foreignSetting)\<rparr>)
        (pyDocument simpleCall) emptyState
      = refresh (quietEnv\<lparr>customRawSqlQuerySetting := Inr None\<rparr>)
          (pyDocument simpleCall) emptyState
   \<and> extractSqlListPy simpleCall (Some defaultConfigs)
      = [\<lparr>code_range = \<lparr>start = \<lparr>line = 0, character = 16\<rparr>,
                         finish = \<lparr>line = 0, character = 35\<rparr>\<rparr>,
           content = ''SELECT * FROM users'', method_line = 0\<rparr>]
   \<and> extractSqlListPy simpleCall (Some (configs foreignSetting)) = []"
proof -
  have h: "language foreignSetting \<noteq> languageId (pyDocument simpleCall)"
    by (simp add: foreignSetting_def pyDocument_def)
  have d: "extractSqlListPy simpleCall (Some defaultConfigs)
      = [\<lparr>code_range = \<lparr>start = \<lparr>line = 0, character = 16\<rparr>,
                         finish = \<lparr>line = 0, character = 35\<rparr>\<rparr>,
           content = ''SELECT * FROM users'', method_line = 0\<rparr>]"
    by code_simp
  have f: "extractSqlListPy simpleCall (Some (configs foreignSetting)) = []"
    by code_simp
  from foreign_setting_ignored [OF h, of quietEnv emptyState] h d f show ?thesis
    by blast
qed

subsection \<open>Lines of a text\<close>

lemma split_nl_not_Nil [simp]: "split_nl s \<noteq> []"
  by (induction s) (auto split: list.splits)





lemma join_split_nl: "join_nl (split_nl s) = s"
proof (induction s)
  case Nil
  then show ?case by simp
next
  case (Cons c s)
  obtain x xs where sp: "split_nl s = x # xs"
    by (cases "split_nl s") auto
  with Cons show ?case by (cases xs) auto
qed

subsection \<open>Re-indentation\<close>




subsection \<open>Two refreshes with the same number of fragments\<close>

lemma showNat_not_Nil: "showNat n \<noteq> []"
  by (subst showNat.simps) simp

lemma digit_inj:
  assumes "char_of (48 + a) = (char_of (48 + b) :: char)" "a < 10" "b < (10::nat)"
  shows "a = b"
proof -
  from assms(1) have "(of_char (char_of (48 + a) :: char) :: nat) = of_char (char_of (48 + b) :: char)"
    by simp
  then have "(48 + a) mod 256 = (48 + b) mod 256"
    by (simp only: of_char_of)
  with assms(2,3) show ?thesis by simp
qed

lemma showNat_inj: "showNat m = showNat n \<Longrightarrow> m = n"
proof (induction m arbitrary: n rule: showNat.induct)
  case (1 m)
  show ?case
  proof (cases "m < 10")
    case True
    then have sm: "showNat m = [char_of (48 + m)]"
      by (subst showNat.simps) simp
    show ?thesis
    proof (cases "n < 10")
      case nl: True
      then have "showNat n = [char_of (48 + n)]"
        by (subst showNat.simps) simp
      with sm "1.prems" have "char_of (48 + m) = (char_of (48 + n) :: char)" by simp
      then show ?thesis using True nl by (rule digit_inj)
    next
      case False
      then have "showNat n = showNat (n div 10) @ [char_of (48 + n mod 10)]"
        by (subst showNat.simps) simp
      with sm "1.prems" have "showNat (n div 10) = []" by simp
      then show ?thesis using showNat_not_Nil by blast
    qed
  next
    case False
    then have sm: "showNat m = showNat (m div 10) @ [char_of (48 + m mod 10)]"
      by (subst showNat.simps) simp
    show ?thesis
    proof (cases "n < 10")
      case True
      then have "showNat n = [char_of (48 + n)]"
        by (subst showNat.simps) simp
      with sm "1.prems" have "showNat (m div 10) = []" by simp
      then show ?thesis using showNat_not_Nil by blast
    next
      case nf: False
      then have "showNat n = showNat (n div 10) @ [char_of (48 + n mod 10)]"
        by (subst showNat.simps) simp
      with sm "1.prems" have a: "showNat (m div 10) = showNat (n div 10)"
        and b: "char_of (48 + m mod 10) = (char_of (48 + n mod 10) :: char)" by simp_all
      from "1.IH" [OF False a] have d: "m div 10 = n div 10" .
      from b have e: "m mod 10 = n mod 10" by (rule digit_inj) simp_all
      from d e show ?thesis by (metis div_mult_mod_eq)
    qed
  qed
qed

lemma virtualFileName_inj: "virtualFileName f i = virtualFileName f j \<Longrightarrow> i = j"
  by (simp add: virtualFileName_def showNat_inj)

lemma removeUnused_apply:
  "removeUnused names store k = (if k \<in> set names then None else store k)"
  unfolding removeUnused_def
  by (induction names arbitrary: store) (auto simp: deleteSnapshot_def)

lemma unusedFileNames_same: "unusedFileNames names names = []"
  by (simp add: unusedFileNames_def)

lemma writeVirtualFiles_names:
  "writeVirtualFiles document sqlNodes idx store = (Inr names, store')
   \<Longrightarrow> names = map (virtualFileName (fileName document)) [idx..<idx + length sqlNodes]"
proof (induction sqlNodes arbitrary: idx store names store')
  case Nil
  then show ?case by simp
next
  case (Cons sqlNode rest)
  from Cons.prems obtain pos where p: "newPosition (line (start (code_range sqlNode)))
             (character (start (code_range sqlNode))) = Inr pos"
    by (auto split: sum.splits)
  let ?name = "virtualFileName (fileName document) idx"
  let ?store1 = "writeSnapshot ?name
     (blankPrefix (getText document) (offsetAt (getText document) pos) @ content sqlNode) store"
  from Cons.prems p obtain names' where
    r: "writeVirtualFiles document rest (Suc idx) ?store1 = (Inr names', store')"
    and n: "names = ?name # names'"
    by (auto simp: Let_def split: sum.splits prod.splits)
  from Cons.IH [OF r] n show ?case
    by (simp add: upt_conv_Cons del: upt_Suc)
qed

lemma newPosition_Inr:
  "newPosition l c = Inr pos \<Longrightarrow> pos = \<lparr>line = l, character = c\<rparr>"
  by (auto simp: newPosition_def split: if_splits)

lemma position_eta: "\<lparr>line = line p, character = character p\<rparr> = (p :: position)"
  by simp

lemma writeVirtualFiles_store:
  "writeVirtualFiles document sqlNodes idx store = (Inr names, store')
   \<Longrightarrow> (\<forall>i < length sqlNodes.
          store' (virtualFileName (fileName document) (idx + i))
            = Some (virtualText (getText document) (sqlNodes ! i)))
       \<and> (\<forall>k. (\<forall>i < length sqlNodes. k \<noteq> virtualFileName (fileName document) (idx + i))
              \<longrightarrow> store' k = store k)"
proof (induction sqlNodes arbitrary: idx store names store')
  case Nil
  then show ?case by simp
next
  case (Cons sqlNode rest)
  from Cons.prems obtain pos where p: "newPosition (line (start (code_range sqlNode)))
             (character (start (code_range sqlNode))) = Inr pos"
    by (auto split: sum.splits)
  then have pos: "pos = start (code_range sqlNode)"
    by (auto dest: newPosition_Inr)
  let ?vfn = "virtualFileName (fileName document)"
  let ?store1 = "writeSnapshot (?vfn idx)
     (blankPrefix (getText document) (offsetAt (getText document) pos) @ content sqlNode) store"
  from Cons.prems p obtain names' where
    r: "writeVirtualFiles document rest (Suc idx) ?store1 = (Inr names', store')"
    by (auto simp: Let_def split: sum.splits prod.splits)
  from Cons.IH [OF r]
  have ih1: "\<And>i. i < length rest \<Longrightarrow>
               store' (?vfn (Suc idx + i)) = Some (virtualText (getText document) (rest ! i))"
    and ih2: "\<And>k. (\<forall>i < length rest. k \<noteq> ?vfn (Suc idx + i)) \<Longrightarrow> store' k = ?store1 k"
    by blast+
  have first: "store' (?vfn idx) = Some (virtualText (getText document) sqlNode)"
  proof -
    have "\<forall>i < length rest. ?vfn idx \<noteq> ?vfn (Suc idx + i)"
      by (auto dest: virtualFileName_inj)
    then have "store' (?vfn idx) = ?store1 (?vfn idx)"
      by (rule ih2)
    then show ?thesis
      by (simp add: writeSnapshot_def virtualText_def pos)
  qed
  have written: "\<forall>i < length (sqlNode # rest).
          store' (?vfn (idx + i)) = Some (virtualText (getText document) ((sqlNode # rest) ! i))"
  proof (intro allI impI)
    fix i assume "i < length (sqlNode # rest)"
    then show "store' (?vfn (idx + i)) = Some (virtualText (getText document) ((sqlNode # rest) ! i))"
      using first ih1 by (cases i) auto
  qed
  have others: "\<forall>k. (\<forall>i < length (sqlNode # rest). k \<noteq> ?vfn (idx + i)) \<longrightarrow> store' k = store k"
  proof (intro allI impI)
    fix k assume a: "\<forall>i < length (sqlNode # rest). k \<noteq> ?vfn (idx + i)"
    then have k0: "k \<noteq> ?vfn idx" by force
    from a have "\<forall>i < length rest. k \<noteq> ?vfn (Suc idx + i)" by force
    then have "store' k = ?store1 k" by (rule ih2)
    with k0 show "store' k = store k" by (simp add: writeSnapshot_def)
  qed
  from written others show ?case by blast
qed

lemma withVirtualDoc_out:
  "withVirtualDoc sqlNodes vFileNames idx = Inr out
   \<Longrightarrow> length out = length sqlNodes
       \<and> (\<forall>i < length sqlNodes.
             code_range (out ! i) = code_range (sqlNodes ! i)
             \<and> content (out ! i) = content (sqlNodes ! i)
             \<and> method_line (out ! i) = method_line (sqlNodes ! i)
             \<and> vFileName (out ! i) = vFileNames ! (idx + i)
             \<and> index (out ! i) = idx + i)"
proof (induction sqlNodes arbitrary: idx out)
  case Nil
  then show ?case by simp
next
  case (Cons block rest)
  from Cons.prems obtain out' where
    r: "withVirtualDoc rest vFileNames (Suc idx) = Inr out'"
    and o: "out = SqlNode.extend block \<lparr>vFileName = vFileNames ! idx, index = idx\<rparr> # out'"
    by (auto split: if_splits sum.splits)
  from Cons.IH [OF r] have len: "length out' = length rest"
    and ih: "\<And>i. i < length rest \<Longrightarrow>
             code_range (out' ! i) = code_range (rest ! i)
             \<and> content (out' ! i) = content (rest ! i)
             \<and> method_line (out' ! i) = method_line (rest ! i)
             \<and> vFileName (out' ! i) = vFileNames ! (Suc idx + i)
             \<and> index (out' ! i) = Suc idx + i"
    by blast+
  show ?case
  proof (intro conjI allI impI)
    show "length out = length (block # rest)" using o len by simp
  next
    fix i assume "i < length (block # rest)"
    then show "code_range (out ! i) = code_range ((block # rest) ! i)"
      "content (out ! i) = content ((block # rest) ! i)"
      "method_line (out ! i) = method_line ((block # rest) ! i)"
      "vFileName (out ! i) = vFileNames ! (idx + i)"
      "index (out ! i) = idx + i"
      using o ih by (cases i; simp add: SqlNode.defs)+
  qed
qed

lemma virtualText_cong:
  "code_range a = code_range b \<Longrightarrow> content a = content b
   \<Longrightarrow> virtualText txt a = virtualText txt b"
  by (simp add: virtualText_def)

lemma refreshBody_python:
  assumes "languageId d = ''python''" and "refreshBody env d st = (Inr out, st')"
  shows "\<exists>sqlNodes names store1.
           writeVirtualFiles d sqlNodes 0 (snapshots st) = (Inr names, store1)
           \<and> withVirtualDoc sqlNodes names 0 = Inr out
           \<and> virtualContents st' = (virtualContents st)(fileName d \<mapsto> names)
           \<and> snapshots st' =
               removeUnused
                 (unusedFileNames
                    (case virtualContents st (fileName d) of None \<Rightarrow> [] | Some ns \<Rightarrow> ns) names)
                 store1"
  using assms
  by (fastforce simp: refreshBody_def Let_def split: option.splits sum.splits prod.splits)

text \<open>
  C3. Two refreshes of the same Python file, one after the other, that both return
  normally and find the same number of fragments: the list of keys of the file is
  the same after both, namely the file name, an at sign, the index and \<open>.sql\<close> for
  each index; the second refresh finds no key to delete, and no key of the store is
  lost; and the snapshot of every key holds the virtual text of the new fragment.
\<close>

theorem refresh_same_count:
  assumes py1: "languageId d1 = ''python''" and py2: "languageId d2 = ''python''"
    and same: "fileName d2 = fileName d1"
    and r1: "refreshBody env1 d1 st0 = (Inr out1, st1)"
    and r2: "refreshBody env2 d2 st1 = (Inr out2, st2)"
    and len: "length out2 = length out1"
  shows "virtualContents st1 (fileName d1)
           = Some (map (virtualFileName (fileName d1)) [0..<length out1])
         \<and> virtualContents st2 (fileName d1) = virtualContents st1 (fileName d1)
         \<and> unusedFileNames (the (virtualContents st1 (fileName d1)))
                            (the (virtualContents st2 (fileName d1))) = []
         \<and> (\<forall>k. snapshots st1 k \<noteq> None \<longrightarrow> snapshots st2 k \<noteq> None)
         \<and> (\<forall>i < length out2.
               vFileName (out2 ! i) = virtualFileName (fileName d1) i
               \<and> snapshots st2 (virtualFileName (fileName d1) i)
                   = Some (virtualText (getText d2) (out2 ! i)))"
proof -
  let ?f = "fileName d1"
  let ?names = "map (virtualFileName ?f) [0..<length out1]"
  from refreshBody_python [OF py1 r1] obtain nodes1 names1 store1 where
    w1: "writeVirtualFiles d1 nodes1 0 (snapshots st0) = (Inr names1, store1)"
    and v1: "withVirtualDoc nodes1 names1 0 = Inr out1"
    and c1: "virtualContents st1 = (virtualContents st0)(?f \<mapsto> names1)"
    by blast
  from refreshBody_python [OF py2 r2] obtain nodes2 names2 store2 where
    w2: "writeVirtualFiles d2 nodes2 0 (snapshots st1) = (Inr names2, store2)"
    and v2: "withVirtualDoc nodes2 names2 0 = Inr out2"
    and c2: "virtualContents st2 = (virtualContents st1)(fileName d2 \<mapsto> names2)"
    and s2: "snapshots st2 =
               removeUnused
                 (unusedFileNames
                    (case virtualContents st1 (fileName d2) of None \<Rightarrow> [] | Some ns \<Rightarrow> ns)
                    names2)
                 store2"
    by blast
  from withVirtualDoc_out [OF v1] have l1: "length out1 = length nodes1" by simp
  from withVirtualDoc_out [OF v2] have l2: "length out2 = length nodes2"
    and o2: "\<And>i. i < length nodes2 \<Longrightarrow>
               code_range (out2 ! i) = code_range (nodes2 ! i)
               \<and> content (out2 ! i) = content (nodes2 ! i)
               \<and> vFileName (out2 ! i) = names2 ! i"
    by auto
  have n1: "names1 = ?names"
    using writeVirtualFiles_names [OF w1] l1 by simp
  have n2: "names2 = ?names"
    using writeVirtualFiles_names [OF w2] l2 len same by simp
  have k1: "virtualContents st1 ?f = Some ?names"
    using c1 n1 by simp
  have k2: "virtualContents st2 ?f = Some ?names"
    using c2 n2 same by simp
  have del: "unusedFileNames (the (virtualContents st1 ?f)) (the (virtualContents st2 ?f)) = []"
    using k1 k2 by (simp add: unusedFileNames_same)
  have s2': "snapshots st2 = store2"
    using s2 k1 n2 same by (simp add: unusedFileNames_same removeUnused_def)
  from writeVirtualFiles_store [OF w2]
  have wr: "\<And>i. i < length nodes2 \<Longrightarrow>
              store2 (virtualFileName (fileName d2) i) = Some (virtualText (getText d2) (nodes2 ! i))"
    and ot: "\<And>k. (\<forall>i < length nodes2. k \<noteq> virtualFileName (fileName d2) i)
              \<Longrightarrow> store2 k = snapshots st1 k"
    by auto
  have keep: "\<forall>k. snapshots st1 k \<noteq> None \<longrightarrow> snapshots st2 k \<noteq> None"
  proof (intro allI impI)
    fix k assume a: "snapshots st1 k \<noteq> None"
    show "snapshots st2 k \<noteq> None"
    proof (cases "\<forall>i < length nodes2. k \<noteq> virtualFileName (fileName d2) i")
      case True
      then show ?thesis using ot a s2' by simp
    next
      case False
      then obtain i where "i < length nodes2" "k = virtualFileName (fileName d2) i" by blast
      then show ?thesis using wr s2' by simp
    qed
  qed
  have new: "\<forall>i < length out2.
               vFileName (out2 ! i) = virtualFileName ?f i
               \<and> snapshots st2 (virtualFileName ?f i) = Some (virtualText (getText d2) (out2 ! i))"
  proof (intro allI impI)
    fix i assume i: "i < length out2"
    then have i2: "i < length nodes2" using l2 by simp
    have "virtualText (getText d2) (out2 ! i) = virtualText (getText d2) (nodes2 ! i)"
      using o2 [OF i2] by (simp add: virtualText_def)
    moreover have "names2 ! i = virtualFileName ?f i"
      using n2 i len by simp
    ultimately show "vFileName (out2 ! i) = virtualFileName ?f i
        \<and> snapshots st2 (virtualFileName ?f i) = Some (virtualText (getText d2) (out2 ! i))"
      using wr [OF i2] o2 [OF i2] s2' same by simp
  qed
  from k1 k2 del keep new show ?thesis by simp
qed

theorem refresh_same_count_witness:
  "refreshBody quietEnv (pyDocument simpleCall) emptyState = (Inr [firstFragment], stateAfterFirst)
   \<and> refreshBody quietEnv (pyDocument otherCall) stateAfterFirst
       = (Inr [secondFragment], stateAfterSecond)
   \<and> virtualContents stateAfterFirst ''a.py'' = Some [''a.py@0.sql'']
   \<and> virtualContents stateAfterSecond ''a.py'' = Some [''a.py@0.sql'']
   \<and> snapshots stateAfterSecond ''a.py@0.sql'' = Some (''                DELETE FROM users'')"
proof -
  have a: "fst (refreshBody quietEnv (pyDocument simpleCall) emptyState) = Inr [firstFragment]"
    by code_simp
  have r1: "refreshBody quietEnv (pyDocument simpleCall) emptyState
              = (Inr [firstFragment], stateAfterFirst)"
    using a by (simp add: stateAfterFirst_def prod_eq_iff)
  have b: "fst (refreshBody quietEnv (pyDocument otherCall) stateAfterFirst)
             = Inr [secondFragment]"
    by code_simp
  have r2: "refreshBody quietEnv (pyDocument otherCall) stateAfterFirst
              = (Inr [secondFragment], stateAfterSecond)"
    using b by (simp add: stateAfterSecond_def prod_eq_iff)
  have py1: "languageId (pyDocument simpleCall) = ''python''"
    and py2: "languageId (pyDocument otherCall) = ''python''"
    and same: "fileName (pyDocument otherCall) = fileName (pyDocument simpleCall)"
    and f: "fileName (pyDocument simpleCall) = ''a.py''"
    by (simp_all add: pyDocument_def)
  have len: "length [secondFragment] = length [firstFragment]"
    by simp
  have n: "virtualFileName ''a.py'' 0 = ''a.py@0.sql''"
    by code_simp
  have t: "virtualText (getText (pyDocument otherCall)) secondFragment
             = ''                DELETE FROM users''"
    by code_simp
  from refresh_same_count [OF py1 py2 same r1 r2 len] r1 r2 show ?thesis
    by (simp add: f n t)
qed

subsection \<open>Coordinates of a fragment in the virtual document\<close>

lemma blockCall_fragments: "extractSqlFromPython blockCall None = Inr [blockNode]"
  by code_simp

text \<open>
  C1 fails on a triple-quoted block whose SQL starts on the line after the quotes. The
  span of the fragment is the span of the literal as written, from offset 18 up to
  offset 32, but its content is the trimmed text. The virtual document that \<open>refresh\<close>
  stores is the blanked prefix followed by the trimmed content, so the offset 23, the
  first letter of the statement, is line 1 and column 4 in the host text and line 0
  and column 23 in the virtual document.
\<close>

theorem block_coordinates_differ:
  "extractSqlFromPython blockCall None = Inr [blockNode]
   \<and> offsetAt blockCall (start (code_range blockNode)) = 18
   \<and> offsetAt blockCall (finish (code_range blockNode)) = 32
   \<and> snapshots (snd (refresh quietEnv (pyDocument blockCall) emptyState)) ''a.py@0.sql''
       = Some (virtualText blockCall blockNode)
   \<and> virtualText blockCall blockNode = ''                  SELECT 1''
   \<and> positionAt blockCall 23 = \<lparr>line = 1, character = 4\<rparr>
   \<and> positionAt (virtualText blockCall blockNode) 23 = \<lparr>line = 0, character = 23\<rparr>"
proof -
  have o1: "offsetAt blockCall (start (code_range blockNode)) = 18"
    by code_simp
  have o2: "offsetAt blockCall (finish (code_range blockNode)) = 32"
    by code_simp
  have v: "virtualText blockCall blockNode = ''                  SELECT 1''"
    by code_simp
  have s: "snapshots (snd (refresh quietEnv (pyDocument blockCall) emptyState)) ''a.py@0.sql''
             = Some ''                  SELECT 1''"
    by code_simp
  have p1: "positionAt blockCall 23 = \<lparr>line = 1, character = 4\<rparr>"
    by code_simp
  have p2: "positionAt ''                  SELECT 1'' 23 = \<lparr>line = 0, character = 23\<rparr>"
    by code_simp
  from blockCall_fragments o1 o2 v s p1 p2 show ?thesis by simp
qed

subsection \<open>Extraction line by line\<close>













subsection \<open>Calls that are not closed\<close>






lemma quoteCount_Nil [simp]: "quoteCount [] = 0"
  by (simp add: quoteCount_def)

lemma quoteCount_append [simp]: "quoteCount (s @ t) = quoteCount s + quoteCount t"
  by (simp add: quoteCount_def)






















subsection \<open>The keyword fallback\<close>











end
